theory Spec2Isabelle
  imports Complex_Main
begin

section \<open>Spring connections (the \<open>springConnections\<close> store)\<close>

text \<open>
  The store holds an array of \<open>SpringConnection\<close> objects. Every operation of the module
  is an update of that array, so each one is modelled as a function from the old array to
  the new one. Palette indices are JavaScript numbers; the operations are studied for
  integer arguments, on which \<open>===\<close> is equality of integers.
\<close>

record SpringConnection =
  index1 :: int
  index2 :: int

text \<open>The test \<open>connections.some(...)\<close> of \<open>addSpringConnection\<close>.\<close>

definition connExists :: "SpringConnection list \<Rightarrow> int \<Rightarrow> int \<Rightarrow> bool" where
  "connExists connections i1 i2 =
     list_ex (\<lambda>conn. (index1 conn = i1 \<and> index2 conn = i2) \<or>
                      (index1 conn = i2 \<and> index2 conn = i1)) connections"

definition addSpringConnection ::
  "int \<Rightarrow> int \<Rightarrow> SpringConnection list \<Rightarrow> SpringConnection list" where
  "addSpringConnection i1 i2 connections =
     (if \<not> connExists connections i1 i2
      then connections @ [\<lparr>index1 = i1, index2 = i2\<rparr>]
      else connections)"

definition removeSpringConnection ::
  "int \<Rightarrow> int \<Rightarrow> SpringConnection list \<Rightarrow> SpringConnection list" where
  "removeSpringConnection i1 i2 connections =
     filter (\<lambda>conn. \<not> (index1 conn = i1 \<and> index2 conn = i2) \<and>
                     \<not> (index1 conn = i2 \<and> index2 conn = i1)) connections"

definition clearSpringConnections :: "SpringConnection list \<Rightarrow> SpringConnection list" where
  "clearSpringConnections connections = []"

text \<open>
  \<open>createCircularChain\<close>: the loop over \<open>i = 0 ..< indices.length\<close>, each round adding
  the pair \<open>(indices[i], indices[(i + 1) % indices.length])\<close>. Both reads are in range.
\<close>

definition createCircularChain ::
  "int list \<Rightarrow> SpringConnection list \<Rightarrow> SpringConnection list" where
  "createCircularChain indices connections =
     fold (\<lambda>i conns. addSpringConnection (indices ! i)
                        (indices ! ((i + 1) mod length indices)) conns)
          [0 ..< length indices] connections"

text \<open>
  \<open>initializeDefaultConnections\<close>: one clear, then for each colour position 0..4 and each
  group 0..1 the chain over \<open>groupIndex * 30 + i * 5 + colorIndex\<close> for \<open>i = 0..5\<close>.
\<close>

definition chainIndices :: "nat \<Rightarrow> nat \<Rightarrow> int list" where
  "chainIndices colorIndex groupIndex =
     map (\<lambda>i. int (groupIndex * 30 + i * 5 + colorIndex)) [0 ..< 6]"

definition initializeDefaultConnections ::
  "SpringConnection list \<Rightarrow> SpringConnection list" where
  "initializeDefaultConnections connections =
     fold (\<lambda>colorIndex conns.
             fold (\<lambda>groupIndex conns'. createCircularChain (chainIndices colorIndex groupIndex) conns')
                  [0 ..< 2] conns)
          [0 ..< 5] (clearSpringConnections connections)"

text \<open>A call of one of the five exported operations, and a sequence of calls.\<close>

datatype conn_op =
    Add int int
  | Remove int int
  | Clear
  | Chain "int list"
  | InitDefault

fun apply_conn_op :: "conn_op \<Rightarrow> SpringConnection list \<Rightarrow> SpringConnection list" where
  "apply_conn_op (Add i j) cs = addSpringConnection i j cs"
| "apply_conn_op (Remove i j) cs = removeSpringConnection i j cs"
| "apply_conn_op Clear cs = clearSpringConnections cs"
| "apply_conn_op (Chain xs) cs = createCircularChain xs cs"
| "apply_conn_op InitDefault cs = initializeDefaultConnections cs"

definition run_conn_ops :: "conn_op list \<Rightarrow> SpringConnection list \<Rightarrow> SpringConnection list" where
  "run_conn_ops ops cs = fold apply_conn_op ops cs"

text \<open>Two entries are the same undirected edge when they agree up to swapping the ends.\<close>

definition same_edge :: "SpringConnection \<Rightarrow> SpringConnection \<Rightarrow> bool" where
  "same_edge c d \<longleftrightarrow>
     (index1 c = index1 d \<and> index2 c = index2 d) \<or>
     (index1 c = index2 d \<and> index2 c = index1 d)"

fun no_parallel_edges :: "SpringConnection list \<Rightarrow> bool" where
  "no_parallel_edges [] = True"
| "no_parallel_edges (c # cs) = (\<not> list_ex (same_edge c) cs \<and> no_parallel_edges cs)"

definition no_self_loops :: "SpringConnection list \<Rightarrow> bool" where
  "no_self_loops cs = list_all (\<lambda>c. index1 c \<noteq> index2 c) cs"

text \<open>
  A call cannot introduce a self loop when the two ends it is asked to join differ: the
  arguments of an add, and every cyclically adjacent pair of a chain.
\<close>

fun loop_free_op :: "conn_op \<Rightarrow> bool" where
  "loop_free_op (Add i j) = (i \<noteq> j)"
| "loop_free_op (Chain xs) =
     list_all (\<lambda>i. xs ! i \<noteq> xs ! ((i + 1) mod length xs)) [0 ..< length xs]"
| "loop_free_op _ = True"


section \<open>Numbers\<close>

text \<open>
  JavaScript numbers are modelled by the real numbers: the arithmetic of the program is
  read as exact arithmetic, and a result about equality of numbers is a result about the
  values the formulas denote. The operators that are not plain field operations are written
  out here.
\<close>

text \<open>\<open>x % y\<close>: the remainder of the division truncated towards zero (sign of \<open>x\<close>).\<close>

definition js_rem :: "real \<Rightarrow> real \<Rightarrow> real" where
  "js_rem x y = x - y * of_int (if 0 \<le> x / y then \<lfloor>x / y\<rfloor> else \<lceil>x / y\<rceil>)"

text \<open>\<open>Math.round(x)\<close>: the nearest integer, halves rounded up.\<close>

definition js_round :: "real \<Rightarrow> real" where
  "js_round x = of_int \<lfloor>x + 1 / 2\<rfloor>"

text \<open>\<open>x || d\<close> on numbers: \<open>d\<close> replaces \<open>x\<close> exactly when \<open>x\<close> is zero.\<close>

definition js_or :: "real \<Rightarrow> real \<Rightarrow> real" where
  "js_or x d = (if x = 0 then d else x)"

section \<open>Colours\<close>

record RGB =
  r :: real
  g :: real
  b :: real

record Color =
  h :: real
  s :: real
  l :: real
  rgb :: RGB
  luminance :: real

text \<open>
  The colour library the program calls (\<open>chroma\<close>) is not part of the sources. The three
  conversions used are parameters of the model: \<open>chroma.hsl(h, s, l).rgb()\<close>,
  \<open>chroma.hsl(h, s, l).luminance()\<close> and \<open>chroma.rgb(r, g, b).hsl()\<close>.
\<close>

record Chroma =
  hsl_rgb :: "real \<Rightarrow> real \<Rightarrow> real \<Rightarrow> RGB"
  hsl_luminance :: "real \<Rightarrow> real \<Rightarrow> real \<Rightarrow> real"
  rgb_hsl :: "real \<Rightarrow> real \<Rightarrow> real \<Rightarrow> real \<times> real \<times> real"

definition createColor :: "Chroma \<Rightarrow> real \<Rightarrow> real \<Rightarrow> real \<Rightarrow> Color" where
  "createColor ch hh ss ll =
     \<lparr>h = hh, s = ss, l = ll,
      rgb = hsl_rgb ch hh (ss / 100) (ll / 100),
      luminance = hsl_luminance ch hh (ss / 100) (ll / 100)\<rparr>"

subsection \<open>A reference colour library\<close>

text \<open>
  \<open>calculateLuminance\<close> is written out in the sources (the variant of \<open>color.ts\<close> that
  does not delegate to the library): linearised sRGB channels weighted by the BT.709
  coefficients.
\<close>

definition linearChannel :: "real \<Rightarrow> real" where
  "linearChannel c = (if c \<le> 0.03928 then c / 12.92 else ((c + 0.055) / 1.055) powr 2.4)"

definition calculateLuminance :: "real \<Rightarrow> real \<Rightarrow> real \<Rightarrow> real" where
  "calculateLuminance rr gg bb =
     0.2126 * linearChannel (rr / 255) + 0.7152 * linearChannel (gg / 255)
       + 0.0722 * linearChannel (bb / 255)"

text \<open>
  Modelled from the spec: the HSL/RGB conversions of the colour library, which the
  sources only call. The specification describes them as the standard HSL to RGB
  conversion followed by the relative luminance above. They are used to evaluate the
  program on concrete colours; every general theorem below holds for an arbitrary
  library.
\<close>

definition hueChannel :: "real \<Rightarrow> real \<Rightarrow> real \<Rightarrow> real" where
  "hueChannel t1 t2 t0 =
     (let t = (if t0 < 0 then t0 + 1 else t0);
          t = (if t > 1 then t - 1 else t)
      in if 6 * t < 1 then t1 + (t2 - t1) * 6 * t
         else if 2 * t < 1 then t2
         else if 3 * t < 2 then t1 + (t2 - t1) * (2 / 3 - t) * 6
         else t1)"

definition std_hsl_rgb :: "real \<Rightarrow> real \<Rightarrow> real \<Rightarrow> RGB" where
  "std_hsl_rgb hh ss ll =
     (if ss = 0 then \<lparr>r = ll * 255, g = ll * 255, b = ll * 255\<rparr>
      else
        (let t2 = (if ll < 0.5 then ll * (1 + ss) else ll + ss - ll * ss);
             t1 = 2 * ll - t2;
             hk = hh / 360
         in \<lparr>r = hueChannel t1 t2 (hk + 1 / 3) * 255,
             g = hueChannel t1 t2 hk * 255,
             b = hueChannel t1 t2 (hk - 1 / 3) * 255\<rparr>))"

definition std_rgb_hsl :: "real \<Rightarrow> real \<Rightarrow> real \<Rightarrow> real \<times> real \<times> real" where
  "std_rgb_hsl rr gg bb =
     (let r1 = rr / 255; g1 = gg / 255; b1 = bb / 255;
          mx = max r1 (max g1 b1);
          mn = min r1 (min g1 b1);
          ll = (mx + mn) / 2
      in if mx = mn then (0, 0, ll)
         else
           (let ss = (if ll < 0.5 then (mx - mn) / (mx + mn) else (mx - mn) / (2 - mx - mn));
                h0 = (if r1 = mx then (g1 - b1) / (mx - mn)
                      else if g1 = mx then 2 + (b1 - r1) / (mx - mn)
                      else 4 + (r1 - g1) / (mx - mn));
                h1 = h0 * 60
            in ((if h1 < 0 then h1 + 360 else h1), ss, ll)))"

definition std_chroma :: Chroma where
  "std_chroma =
     \<lparr>hsl_rgb = std_hsl_rgb,
      hsl_luminance = (\<lambda>hh ss ll. let c = std_hsl_rgb hh ss ll
                                   in calculateLuminance (r c) (g c) (b c)),
      rgb_hsl = std_rgb_hsl\<rparr>"

section \<open>The spring system\<close>

text \<open>
  The spring constant, the damping and the time step are read from the page's style
  (\<open>getSpringConstant\<close>, \<open>getDamping\<close>, \<open>getTimestep\<close>), with defaults outside a browser. They
  are parameters of the model, together with the colour library.
\<close>

record Env =
  chroma :: Chroma
  springConstant :: real
  damping :: real
  timestep :: real

definition default_env :: Env where
  "default_env = \<lparr>chroma = std_chroma, springConstant = 0.1, damping = 0.2, timestep = 1\<rparr>"

record ColorVelocity =
  h :: real
  s :: real
  l :: real

definition zeroVelocity :: ColorVelocity where
  "zeroVelocity = \<lparr>h = 0, s = 0, l = 0\<rparr>"

datatype js_error = TypeError

text \<open>
  The \<open>velocities\<close> map of a spring system. Its only writer of keys is
  \<open>initializeVelocities\<close>, which clears it and stores one entry per array index
  \<open>0 .. colors.length - 1\<close>; everything else updates an entry in place. So the map is
  the list of its values: \<open>velocities.size\<close> is the length of the list, and
  \<open>velocities.get(i)\<close> is \<open>undefined\<close> from the length on.
\<close>

type_synonym velocities = "ColorVelocity list"

definition initializeVelocities :: "Color list \<Rightarrow> velocities" where
  "initializeVelocities colors = replicate (length colors) zeroVelocity"

definition estimateLightnessChange :: "Chroma \<Rightarrow> Color \<Rightarrow> real \<Rightarrow> real" where
  "estimateLightnessChange ch color targetLuminance =
     (let testColor = createColor ch (Color.h color) (Color.s color) (Color.l color + 1);
          luminanceDiff = luminance testColor - luminance color
      in 0.5 * (targetLuminance - luminance color) / js_or luminanceDiff 0.001)"

text \<open>The value of the local \<open>luminanceDiff\<close> of \<open>estimateLightnessChange\<close>.\<close>

definition luminanceProbe :: "Chroma \<Rightarrow> Color \<Rightarrow> real" where
  "luminanceProbe ch color =
     luminance (createColor ch (Color.h color) (Color.s color) (Color.l color + 1))
       - luminance color"

text \<open>The value of the local \<open>diff\<close> of \<open>calculateSpringForce\<close> when it returns.\<close>

definition shortestDiff :: "real \<Rightarrow> real \<Rightarrow> real" where
  "shortestDiff pos1 pos2 =
     (let diff = pos2 - pos1;
          diff = (if diff > 180 then diff - 360 else diff);
          diff = (if diff < - 180 then diff + 360 else diff)
      in diff)"

definition calculateSpringForce :: "Env \<Rightarrow> real \<Rightarrow> real \<Rightarrow> real" where
  "calculateSpringForce env pos1 pos2 = shortestDiff pos1 pos2 * springConstant env"

definition getConnectedIndices :: "SpringConnection list \<Rightarrow> int \<Rightarrow> int list" where
  "getConnectedIndices connections idx =
     map (\<lambda>conn. if index1 conn = idx then index2 conn else index1 conn)
         (filter (\<lambda>conn. index1 conn = idx \<or> index2 conn = idx) connections)"

text \<open>\<open>colors[j]\<close>: \<open>undefined\<close> outside the array.\<close>

definition colorAt :: "Color list \<Rightarrow> int \<Rightarrow> Color option" where
  "colorAt colors j = (if 0 \<le> j \<and> nat j < length colors then Some (colors ! nat j) else None)"

text \<open>
  The inner loop of the force computation, over the connected indices of one colour. The
  accumulator is \<open>(totalForceH, totalForceS, totalForceLuminance)\<close>. Reading a field of
  a colour that is not in the array throws.
\<close>

fun sumForces ::
  "Env \<Rightarrow> Color list \<Rightarrow> Color \<Rightarrow> int list \<Rightarrow> real \<times> real \<times> real \<Rightarrow>
   js_error + real \<times> real \<times> real" where
  "sumForces env colors color [] acc = Inr acc"
| "sumForces env colors color (connectedIndex # rest) (totalForceH, totalForceS, totalForceLuminance) =
     (case colorAt colors connectedIndex of
        None \<Rightarrow> Inl TypeError
      | Some connectedColor \<Rightarrow>
          sumForces env colors color rest
            (totalForceH + calculateSpringForce env (Color.h color) (Color.h connectedColor),
             totalForceS + (Color.s connectedColor - Color.s color) * springConstant env,
             totalForceLuminance
               + (luminance connectedColor - luminance color) * springConstant env))"

definition forceOn ::
  "Env \<Rightarrow> SpringConnection list \<Rightarrow> Color list \<Rightarrow> nat \<Rightarrow> js_error + ColorVelocity" where
  "forceOn env connections colors i =
     (let color = colors ! i
      in case sumForces env colors color (getConnectedIndices connections (int i)) (0, 0, 0) of
           Inl e \<Rightarrow> Inl e
         | Inr (totalForceH, totalForceS, totalForceLuminance) \<Rightarrow>
             Inr \<lparr>h = totalForceH, s = totalForceS,
                  l = estimateLightnessChange (chroma env) color
                        (luminance color + totalForceLuminance)\<rparr>)"

text \<open>The first loop of \<open>simulateStep\<close>, filling the \<open>forces\<close> map.\<close>

fun forceLoop ::
  "Env \<Rightarrow> SpringConnection list \<Rightarrow> Color list \<Rightarrow> nat set \<Rightarrow> nat list \<Rightarrow>
   (nat \<rightharpoonup> ColorVelocity) \<Rightarrow> js_error + (nat \<rightharpoonup> ColorVelocity)" where
  "forceLoop env connections colors lockedIndices [] forces = Inr forces"
| "forceLoop env connections colors lockedIndices (i # rest) forces =
     (if i \<in> lockedIndices then forceLoop env connections colors lockedIndices rest forces
      else
        (case forceOn env connections colors i of
           Inl e \<Rightarrow> Inl e
         | Inr f \<Rightarrow> forceLoop env connections colors lockedIndices rest (forces(i \<mapsto> f))))"

text \<open>The velocity update with damping, and the position update, of one colour.\<close>

definition stepVelocity :: "Env \<Rightarrow> ColorVelocity \<Rightarrow> ColorVelocity \<Rightarrow> ColorVelocity" where
  "stepVelocity env vel force =
     \<lparr>h = (ColorVelocity.h vel + ColorVelocity.h force * timestep env) * (1 - damping env),
      s = (ColorVelocity.s vel + ColorVelocity.s force * timestep env) * (1 - damping env),
      l = (ColorVelocity.l vel + ColorVelocity.l force * timestep env) * (1 - damping env)\<rparr>"

definition moveColor :: "Env \<Rightarrow> Color \<Rightarrow> ColorVelocity \<Rightarrow> Color" where
  "moveColor env color vel =
     (let newH0 = js_rem (Color.h color + ColorVelocity.h vel * timestep env) 360;
          newH = (if newH0 < 0 then newH0 + 360 else newH0);
          newS = max 0 (min 100 (Color.s color + ColorVelocity.s vel * timestep env));
          newL = max 0 (min 100 (Color.l color + ColorVelocity.l vel * timestep env))
      in createColor (chroma env) newH newS newL)"

text \<open>
  The second loop. \<open>velocities.get(i)!\<close> is \<open>undefined\<close> when the map has no entry for
  \<open>i\<close>, and reading its field throws; the entries updated before that stay updated.
\<close>

fun updateLoop ::
  "Env \<Rightarrow> Color list \<Rightarrow> nat set \<Rightarrow> (nat \<rightharpoonup> ColorVelocity) \<Rightarrow> nat list \<Rightarrow>
   velocities \<Rightarrow> Color list \<Rightarrow> (js_error + Color list) \<times> velocities" where
  "updateLoop env colors lockedIndices forces [] vels newColors = (Inr newColors, vels)"
| "updateLoop env colors lockedIndices forces (i # rest) vels newColors =
     (if i \<in> lockedIndices then updateLoop env colors lockedIndices forces rest vels newColors
      else
        (let force = (case forces i of Some f \<Rightarrow> f | None \<Rightarrow> zeroVelocity)
         in if i < length vels then
              (let vel = stepVelocity env (vels ! i) force
               in updateLoop env colors lockedIndices forces rest (vels[i := vel])
                    (newColors[i := moveColor env (colors ! i) vel]))
            else (Inl TypeError, vels)))"

text \<open>The first statement of \<open>simulateStep\<close>:
  \<open>if (velocities.size === 0) initializeVelocities(colors)\<close>.\<close>

definition ensureVelocities :: "velocities \<Rightarrow> Color list \<Rightarrow> velocities" where
  "ensureVelocities velocities0 colors =
     (if length velocities0 = 0 then initializeVelocities colors else velocities0)"

text \<open>
  \<open>simulateStep\<close>, with the velocity map passed in and returned. The result is the new
  palette, or the exception that ends the call.
\<close>

definition simulateStep ::
  "Env \<Rightarrow> SpringConnection list \<Rightarrow> velocities \<Rightarrow> Color list \<Rightarrow> nat set \<Rightarrow>
   (js_error + Color list) \<times> velocities" where
  "simulateStep env connections velocities0 colors lockedIndices =
     (let vels = ensureVelocities velocities0 colors
      in case forceLoop env connections colors lockedIndices [0 ..< length colors] Map.empty of
           Inl e \<Rightarrow> (Inl e, vels)
         | Inr forces \<Rightarrow>
             updateLoop env colors lockedIndices forces [0 ..< length colors] vels colors)"

text \<open>
  The animation loop of the callers: each frame calls \<open>simulateStep\<close> on the palette the
  previous frame stored, with the locked set of that moment.
\<close>

fun runSteps ::
  "Env \<Rightarrow> SpringConnection list \<Rightarrow> nat set list \<Rightarrow> velocities \<Rightarrow> Color list \<Rightarrow>
   (js_error + Color list) \<times> velocities" where
  "runSteps env connections [] vels colors = (Inr colors, vels)"
| "runSteps env connections (lockedIndices # rest) vels colors =
     (case simulateStep env connections vels colors lockedIndices of
        (Inl e, vels') \<Rightarrow> (Inl e, vels')
      | (Inr colors', vels') \<Rightarrow> runSteps env connections rest vels' colors')"

text \<open>A palette entry as the data model describes it.\<close>

definition wellFormedColor :: "Chroma \<Rightarrow> Color \<Rightarrow> bool" where
  "wellFormedColor ch c \<longleftrightarrow>
     0 \<le> Color.h c \<and> Color.h c < 360 \<and> 0 \<le> Color.s c \<and> Color.s c \<le> 100 \<and>
     0 \<le> Color.l c \<and> Color.l c \<le> 100 \<and>
     c = createColor ch (Color.h c) (Color.s c) (Color.l c)"


section \<open>Gradients\<close>

text \<open>
  The three generators take \<open>Color | null\<close> arguments, modelled by \<open>Color option\<close>; a
  missing end point gives the empty list. The step count is the constant \<open>steps = 20\<close>.
\<close>

definition steps :: nat where
  "steps = 20"

text \<open>\<open>((endHue - startHue + 540) % 360) - 180\<close>.\<close>

definition hueDiff :: "Color \<Rightarrow> Color \<Rightarrow> real" where
  "hueDiff start end = js_rem (Color.h end - Color.h start + 540) 360 - 180"

definition generateHSLGradient :: "Chroma \<Rightarrow> Color option \<Rightarrow> Color option \<Rightarrow> Color list" where
  "generateHSLGradient ch start0 end0 =
     (case (start0, end0) of
        (Some start, Some end) \<Rightarrow>
          [start]
          @ map (\<lambda>i. let t = real i / real steps;
                          hh = js_rem (Color.h start + hueDiff start end * t + 360) 360;
                          ss = Color.s start + t * (Color.s end - Color.s start);
                          ll = Color.l start + t * (Color.l end - Color.l start)
                      in createColor ch hh ss ll) [1 ..< steps]
          @ [end]
      | _ \<Rightarrow> [])"

text \<open>
  The lightness search of \<open>generateEvenLumGradient\<close>: the loop
  \<open>for (let l = 0; l <= 100; l += 0.2)\<close> with its \<open>break\<close>. The state is
  \<open>(bestLuminanceDiff, bestLight, bestColor)\<close>; \<open>None\<close> stands for the initial
  \<open>Infinity\<close> of the first and for the initial \<open>null\<close> of the last. The result is
  \<open>bestColor\<close> when the loop ends.
\<close>

function lightnessSearch ::
  "Chroma \<Rightarrow> real \<Rightarrow> real \<Rightarrow> real \<Rightarrow> real \<Rightarrow> real option \<times> real \<times> Color option \<Rightarrow>
   Color option" where
  "lightnessSearch ch hh ss targetLum ll (bestLuminanceDiff, bestLight, bestColor) =
     (if ll \<le> 100 then
        (let testColor = createColor ch hh ss ll;
             luminanceDiff = \<bar>luminance testColor - targetLum\<bar>;
             better = (case bestLuminanceDiff of None \<Rightarrow> True | Some d \<Rightarrow> luminanceDiff < d);
             best = (if better then (Some luminanceDiff, ll, Some testColor)
                     else (bestLuminanceDiff, bestLight, bestColor))
         in if luminanceDiff < 0.001 then snd (snd best)
            else lightnessSearch ch hh ss targetLum (ll + 0.2) best)
      else bestColor)"
  by pat_completeness auto
termination
proof (relation "measure (\<lambda>(ch, hh, ss, targetLum, ll, best). nat \<lceil>(100 - ll) * 5 + 1\<rceil>)")
  show "wf (measure (\<lambda>(ch, hh, ss, targetLum, ll, best). nat \<lceil>(100 - ll) * 5 + 1\<rceil>))"
    by simp
next
  fix ch :: Chroma and hh ss targetLum ll :: real
  fix bestLuminanceDiff :: "real option" and bestLight :: real and bestColor :: "Color option"
  fix x xa xb and xc :: "real option \<times> real \<times> Color option"
  assume a: "ll \<le> 100"
  have "\<lceil>(100 - (ll + 0.2)) * 5 + 1\<rceil> = \<lceil>(100 - ll) * 5 + 1\<rceil> - 1"
    by (simp add: algebra_simps ceiling_diff_one[symmetric] del: ceiling_diff_one)
  moreover have "0 < \<lceil>(100 - ll) * 5 + 1\<rceil>"
    using a by (simp add: ceiling_less_iff less_ceiling_iff)
  ultimately show
    "((ch, hh, ss, targetLum, ll + 0.2, xc), (ch, hh, ss, targetLum, ll, bestLuminanceDiff, bestLight, bestColor))
      \<in> measure (\<lambda>(ch, hh, ss, targetLum, ll, best). nat \<lceil>(100 - ll) * 5 + 1\<rceil>)"
    by simp
qed

declare lightnessSearch.simps [simp del]

definition generateEvenLumGradient :: "Chroma \<Rightarrow> Color option \<Rightarrow> Color option \<Rightarrow> Color list" where
  "generateEvenLumGradient ch start0 end0 =
     (case (start0, end0) of
        (Some start, Some end) \<Rightarrow>
          [start]
          @ List.map_filter
              (\<lambda>i. let t = real i / real steps;
                       targetLum = luminance start + t * (luminance end - luminance start);
                       hh = js_rem (Color.h start + hueDiff start end * t + 360) 360;
                       ss = Color.s start + t * (Color.s end - Color.s start)
                   in lightnessSearch ch hh ss targetLum 0 (None, 50, None)) [1 ..< steps]
          @ [end]
      | _ \<Rightarrow> [])"

subsection \<open>Mixing in the opponent space\<close>

text \<open>\<open>row.reduce((sum, value, index) => sum + value * vector[index], 0)\<close> for each row.\<close>

definition multiplyMatrixVector :: "real list list \<Rightarrow> real list \<Rightarrow> real list" where
  "multiplyMatrixVector matrix vector =
     map (\<lambda>row. foldl (\<lambda>sum (value, index). sum + value * vector ! index) 0
                   (zip row [0 ..< length row])) matrix"

definition CONE_TO_LMS :: "real list list" where
  "CONE_TO_LMS =
     [[0.4121656120, 0.2118591070, 0.0883097947],
      [0.5362752080, 0.6807189584, 0.2818474174],
      [0.0514575653, 0.1074065790, 0.6302613616]]"

definition LMS_TO_CONE :: "real list list" where
  "LMS_TO_CONE =
     [[4.0767245293, - 1.2681437731, - 0.0041119885],
      [- 3.3072168827, 2.6093323231, - 0.7034763098],
      [0.2307590544, - 0.3411344290, 1.7068625689]]"

text \<open>\<open>Math.pow(Math.max(0, v), 1/3)\<close>: the cube root of a non-negative number.\<close>

definition cubeRoot :: "real \<Rightarrow> real" where
  "cubeRoot v = root 3 (max 0 v)"

definition oklabMix :: "Chroma \<Rightarrow> Color \<Rightarrow> Color \<Rightarrow> real \<Rightarrow> Color" where
  "oklabMix ch color1 color2 t =
     (let lin1 = [r (rgb color1) / 255, g (rgb color1) / 255, b (rgb color1) / 255];
          lin2 = [r (rgb color2) / 255, g (rgb color2) / 255, b (rgb color2) / 255];
          lms1 = map cubeRoot (multiplyMatrixVector CONE_TO_LMS lin1);
          lms2 = map cubeRoot (multiplyMatrixVector CONE_TO_LMS lin2);
          lms = map (\<lambda>(v, i). v * (1 - t) + lms2 ! i * t) (zip lms1 [0 ..< length lms1]);
          gain = 1.0 + 0.2 * t * (1.0 - t);
          lmsGained = map (\<lambda>v. v * gain) lms;
          rgb' = multiplyMatrixVector LMS_TO_CONE (map (\<lambda>v. v * v * v) lmsGained);
          rr = js_round (max 0 (min 255 (rgb' ! 0 * 255)));
          gg = js_round (max 0 (min 255 (rgb' ! 1 * 255)));
          bb = js_round (max 0 (min 255 (rgb' ! 2 * 255)))
      in case rgb_hsl ch rr gg bb of
           (hh, ss, ll) \<Rightarrow> createColor ch hh (ss * 100) (ll * 100))"

definition generateOKLabGradient :: "Chroma \<Rightarrow> Color option \<Rightarrow> Color option \<Rightarrow> Color list" where
  "generateOKLabGradient ch start0 end0 =
     (case (start0, end0) of
        (Some start, Some end) \<Rightarrow>
          map (\<lambda>i. oklabMix ch start end (real i / real steps)) [0 ..< steps + 1]
      | _ \<Rightarrow> [])"


section \<open>Loading a palette from text\<close>

text \<open>
  \<open>new Array(60)\<close> is an array of length 60 with no element: every slot is a hole. An
  array is its length together with the elements that exist. Storing at an index at or
  beyond the length extends the array; \<open>some\<close> calls its predicate on the elements that
  exist and passes over the holes.
\<close>

record 'c js_array =
  alength :: nat
  elems :: "nat \<rightharpoonup> 'c"

definition newArray :: "nat \<Rightarrow> 'c js_array" where
  "newArray n = \<lparr>alength = n, elems = Map.empty\<rparr>"

text \<open>
  \<open>a[i] = v\<close> for a non-negative integer \<open>i\<close>. Up to \<open>2^32 - 2\<close> the integer is an array
  index and the length grows to cover it; above that the store creates a plain property and
  the length stays as it is.
\<close>

definition arraySet :: "'c js_array \<Rightarrow> nat \<Rightarrow> 'c \<Rightarrow> 'c js_array" where
  "arraySet a i v =
     \<lparr>alength = (if i < 4294967295 then max (alength a) (Suc i) else alength a),
      elems = (elems a)(i \<mapsto> v)\<rparr>"

definition arraySome :: "('c \<Rightarrow> bool) \<Rightarrow> 'c js_array \<Rightarrow> bool" where
  "arraySome p a =
     list_ex (\<lambda>i. case elems a i of None \<Rightarrow> False | Some v \<Rightarrow> p v) [0 ..< alength a]"

text \<open>The string operations of the parser, on strings of single-byte characters.\<close>

fun splitOn :: "char \<Rightarrow> string \<Rightarrow> string list" where
  "splitOn sep [] = [[]]"
| "splitOn sep (c # cs) =
     (if c = sep then [] # splitOn sep cs
      else (case splitOn sep cs of [] \<Rightarrow> [[c]] | w # ws \<Rightarrow> (c # w) # ws))"

definition startsWith :: "string \<Rightarrow> string \<Rightarrow> bool" where
  "startsWith str pre = (take (length pre) str = pre)"

text \<open>
  The characters \<open>trim\<close> strips, among the code units below 256: the space, the no-break
  space, and the controls from tab to carriage return.
\<close>

definition isSpace :: "char \<Rightarrow> bool" where
  "isSpace c =
     (c \<in> set [CHR 0x20, CHR 0x09, CHR 0x0A, CHR 0x0B, CHR 0x0C, CHR 0x0D, CHR 0xA0])"

definition trim :: "string \<Rightarrow> string" where
  "trim str = rev (dropWhile isSpace (rev (dropWhile isSpace str)))"

text \<open>\<open>xs[i]\<close> on an array of strings: \<open>undefined\<close> (\<open>None\<close>) out of range.\<close>

definition nthOpt :: "'a list \<Rightarrow> nat \<Rightarrow> 'a option" where
  "nthOpt xs i = (if i < length xs then Some (xs ! i) else None)"

text \<open>
  The built-in \<open>parseInt\<close> is a parameter: it maps a string, or \<open>undefined\<close>, to an
  integer or to \<open>NaN\<close> (\<open>None\<close>). The other parameter is the colour object built from the
  three texts of an \<open>HSL:\<close> line, \<open>createColor(parseFloat(hStr), parseFloat(sStr),
  parseFloat(lStr))\<close>; the parser never inspects it.
\<close>

record 'c Parser =
  parseInt :: "string option \<Rightarrow> int option"
  colorOfText :: "string option \<Rightarrow> string option \<Rightarrow> string option \<Rightarrow> 'c"

record 'c parse_state =
  newColors :: "'c js_array"
  currentGroup :: "int option"
  currentPalette :: "int option"
  currentColor :: "int option"

text \<open>\<open>x >= 0\<close>, false for \<open>NaN\<close>.\<close>

definition geZero :: "int option \<Rightarrow> bool" where
  "geZero x = (case x of None \<Rightarrow> False | Some n \<Rightarrow> 0 \<le> n)"

definition minusOne :: "int option \<Rightarrow> int option" where
  "minusOne x = map_option (\<lambda>n. n - 1) x"

text \<open>The body of the loop over the lines.\<close>

definition parseLine :: "'c Parser \<Rightarrow> string \<Rightarrow> 'c parse_state \<Rightarrow> js_error + 'c parse_state" where
  "parseLine P line st =
     (if startsWith line ''Group'' then
        Inr (st\<lparr>currentGroup := minusOne (parseInt P (nthOpt (splitOn CHR '' '' line) 1)),
                currentPalette := Some (- 1)\<rparr>)
      else if startsWith line ''Palette'' then
        Inr (st\<lparr>currentPalette := minusOne (parseInt P (nthOpt (splitOn CHR '' '' line) 1)),
                currentColor := Some (- 1)\<rparr>)
      else if startsWith line ''Color'' then
        Inr (st\<lparr>currentColor := minusOne (parseInt P (nthOpt (splitOn CHR '' '' line) 1))\<rparr>)
      else if startsWith (trim line) ''HSL:'' then
        (case nthOpt (splitOn CHR '':'' line) 1 of
           None \<Rightarrow> Inl TypeError
         | Some rest \<Rightarrow>
             (let parts = splitOn CHR '','' rest
              in if geZero (currentGroup st) \<and> geZero (currentPalette st)
                    \<and> geZero (currentColor st)
                 then
                   (let index = the (currentGroup st) * 30 + the (currentPalette st) * 5
                                  + the (currentColor st)
                    in Inr (st\<lparr>newColors :=
                                 arraySet (newColors st) (nat index)
                                   (colorOfText P (nthOpt parts 0) (nthOpt parts 1)
                                      (nthOpt parts 2))\<rparr>))
                 else Inr st))
      else Inr st)"

fun parseLines :: "'c Parser \<Rightarrow> string list \<Rightarrow> 'c parse_state \<Rightarrow> js_error + 'c parse_state" where
  "parseLines P [] st = Inr st"
| "parseLines P (line # rest) st =
     (case parseLine P line st of Inl e \<Rightarrow> Inl e | Inr st' \<Rightarrow> parseLines P rest st')"

text \<open>
  \<open>parseColors\<close>: any exception inside the \<open>try\<close> gives \<open>null\<close> (\<open>None\<close>). The test
  \<open>newColors.some(c => !c)\<close> applies \<open>!\<close> to colour objects, and \<open>!c\<close> is false for
  every object.
\<close>

definition parseColors :: "'c Parser \<Rightarrow> string \<Rightarrow> 'c js_array option" where
  "parseColors P text =
     (case parseLines P (splitOn CHR 0x0A text)
             \<lparr>newColors = newArray 60, currentGroup = Some (- 1),
              currentPalette = Some (- 1), currentColor = Some (- 1)\<rparr> of
        Inl e \<Rightarrow> None
      | Inr st \<Rightarrow>
          (if arraySome (\<lambda>c. False) (newColors st) then None else Some (newColors st)))"

text \<open>The number of colour slots of the array that hold a colour.\<close>

definition recovered :: "'c js_array \<Rightarrow> nat" where
  "recovered a = length (filter (\<lambda>i. elems a i \<noteq> None) [0 ..< 60])"

section \<open>Auxiliary notions and example data\<close>

text \<open>A force map whose entries are all zero, and the force a colour receives from it
  (\<open>forces.get(i) || { h: 0, s: 0, l: 0 }\<close>).\<close>

definition zero_forces :: "(nat \<rightharpoonup> ColorVelocity) \<Rightarrow> bool" where
  "zero_forces forces \<longleftrightarrow> (\<forall>j. forces j = None \<or> forces j = Some zeroVelocity)"

definition forceOf :: "(nat \<rightharpoonup> ColorVelocity) \<Rightarrow> nat \<Rightarrow> ColorVelocity" where
  "forceOf forces i = (case forces i of Some f \<Rightarrow> f | None \<Rightarrow> zeroVelocity)"

text \<open>Two dark greys with hues on either side of the wrap, and the spring joining them.\<close>

definition cA :: Color where
  "cA = createColor std_chroma 10 0 1"

definition cB :: Color where
  "cB = createColor std_chroma 350 0 1"

definition conn01 :: "SpringConnection list" where
  "conn01 = [\<lparr>index1 = 0, index2 = 1\<rparr>]"

text \<open>The palette and the velocities after one step on \<open>[cA, cB]\<close> with nothing locked.\<close>

definition pal1 :: "Color list" where
  "pal1 = [createColor std_chroma (42 / 5) 0 1, createColor std_chroma (1758 / 5) 0 1]"

definition vels1 :: velocities where
  "vels1 = [\<lparr>h = - (8 / 5), s = 0, l = 0\<rparr>, \<lparr>h = 8 / 5, s = 0, l = 0\<rparr>]"

text \<open>Black, a quarter grey, and a dark saturated green.\<close>

definition black :: Color where
  "black = createColor std_chroma 0 0 0"

definition grey25 :: Color where
  "grey25 = createColor std_chroma 0 0 25"

definition darkGreen :: Color where
  "darkGreen = createColor std_chroma 120 100 (1 / 2)"

section \<open>Properties of the connection store\<close>

lemma connExists_iff:
  "connExists cs i j \<longleftrightarrow> (\<exists>d\<in>set cs. same_edge \<lparr>index1 = i, index2 = j\<rparr> d)"
  by (auto simp: connExists_def same_edge_def list_ex_iff)

lemma no_parallel_append:
  "no_parallel_edges (cs @ [c]) \<longleftrightarrow> no_parallel_edges cs \<and> (\<forall>d\<in>set cs. \<not> same_edge d c)"
  by (induction cs) (auto simp: list_ex_iff)

lemma same_edge_sym: "same_edge c d \<longleftrightarrow> same_edge d c"
  by (auto simp: same_edge_def)

lemma no_parallel_filter: "no_parallel_edges cs \<Longrightarrow> no_parallel_edges (filter P cs)"
  by (induction cs) (auto simp: list_ex_iff)

lemma add_no_parallel:
  "no_parallel_edges cs \<Longrightarrow> no_parallel_edges (addSpringConnection i j cs)"
  using same_edge_sym by (auto simp: addSpringConnection_def no_parallel_append connExists_iff)

lemma fold_add_no_parallel:
  "no_parallel_edges cs \<Longrightarrow>
   no_parallel_edges (fold (\<lambda>i conns. addSpringConnection (f1 i) (f2 i) conns) ks cs)"
  by (induction ks arbitrary: cs) (auto simp: add_no_parallel)

lemma chain_no_parallel:
  "no_parallel_edges cs \<Longrightarrow> no_parallel_edges (createCircularChain xs cs)"
  unfolding createCircularChain_def by (rule fold_add_no_parallel)

lemma fold_chain_no_parallel:
  "no_parallel_edges cs \<Longrightarrow>
   no_parallel_edges (fold (\<lambda>g conns. createCircularChain (f g) conns) gs cs)"
  by (induction gs arbitrary: cs) (auto simp: chain_no_parallel)

lemma fold_fold_chain_no_parallel:
  "no_parallel_edges cs \<Longrightarrow>
   no_parallel_edges
     (fold (\<lambda>c conns. fold (\<lambda>g conns'. createCircularChain (f c g) conns') gs conns) ks cs)"
  by (induction ks arbitrary: cs) (auto simp: fold_chain_no_parallel)

lemma init_no_parallel: "no_parallel_edges (initializeDefaultConnections cs)"
  unfolding initializeDefaultConnections_def clearSpringConnections_def
  by (rule fold_fold_chain_no_parallel) simp

lemma op_no_parallel: "no_parallel_edges cs \<Longrightarrow> no_parallel_edges (apply_conn_op op cs)"
  by (cases op) (auto simp: add_no_parallel no_parallel_filter removeSpringConnection_def
      clearSpringConnections_def chain_no_parallel init_no_parallel)

lemma run_no_parallel: "no_parallel_edges cs \<Longrightarrow> no_parallel_edges (run_conn_ops ops cs)"
  unfolding run_conn_ops_def by (induction ops arbitrary: cs) (auto simp: op_no_parallel)

lemma add_no_loops:
  "no_self_loops cs \<Longrightarrow> i \<noteq> j \<Longrightarrow> no_self_loops (addSpringConnection i j cs)"
  by (auto simp: addSpringConnection_def no_self_loops_def)

lemma fold_add_no_loops:
  "no_self_loops cs \<Longrightarrow> \<forall>k\<in>set ks. f1 k \<noteq> f2 k \<Longrightarrow>
   no_self_loops (fold (\<lambda>i conns. addSpringConnection (f1 i) (f2 i) conns) ks cs)"
  by (induction ks arbitrary: cs) (auto simp: add_no_loops)

lemma chain_no_loops:
  "no_self_loops cs \<Longrightarrow> loop_free_op (Chain xs) \<Longrightarrow> no_self_loops (createCircularChain xs cs)"
  unfolding createCircularChain_def
  by (rule fold_add_no_loops) (auto simp: list_all_iff)

lemma chainIndices_loop_free: "loop_free_op (Chain (chainIndices ci gi))"
  by (auto simp: chainIndices_def list_all_iff mod_Suc)

lemma fold_chain_no_loops:
  "no_self_loops cs \<Longrightarrow> \<forall>g\<in>set gs. loop_free_op (Chain (f g)) \<Longrightarrow>
   no_self_loops (fold (\<lambda>g conns. createCircularChain (f g) conns) gs cs)"
  by (induction gs arbitrary: cs) (auto simp: chain_no_loops simp del: loop_free_op.simps)

lemma fold_fold_chain_no_loops:
  "no_self_loops cs \<Longrightarrow> \<forall>c g. loop_free_op (Chain (f c g)) \<Longrightarrow>
   no_self_loops
     (fold (\<lambda>c conns. fold (\<lambda>g conns'. createCircularChain (f c g) conns') gs conns) ks cs)"
  by (induction ks arbitrary: cs) (auto simp: fold_chain_no_loops simp del: loop_free_op.simps)

lemma init_no_loops: "no_self_loops (initializeDefaultConnections cs)"
  unfolding initializeDefaultConnections_def clearSpringConnections_def
  by (rule fold_fold_chain_no_loops)
     (simp_all add: no_self_loops_def chainIndices_loop_free del: loop_free_op.simps)

lemma remove_no_loops: "no_self_loops cs \<Longrightarrow> no_self_loops (removeSpringConnection i j cs)"
  by (simp add: removeSpringConnection_def no_self_loops_def list_all_iff)

lemma op_no_loops:
  "no_self_loops cs \<Longrightarrow> loop_free_op op \<Longrightarrow> no_self_loops (apply_conn_op op cs)"
proof (cases op)
  case (Chain xs)
  assume "no_self_loops cs" "loop_free_op op"
  then show ?thesis using Chain chain_no_loops by simp
next
  case (Add i j)
  assume "no_self_loops cs" "loop_free_op op"
  then show ?thesis using Add add_no_loops by simp
next
  case (Remove i j)
  assume "no_self_loops cs"
  then show ?thesis using Remove remove_no_loops by simp
next
  case Clear
  then show ?thesis by (simp add: clearSpringConnections_def no_self_loops_def)
next
  case InitDefault
  then show ?thesis by (simp add: init_no_loops)
qed

lemma run_no_loops:
  "no_self_loops cs \<Longrightarrow> list_all loop_free_op ops \<Longrightarrow> no_self_loops (run_conn_ops ops cs)"
  unfolding run_conn_ops_def by (induction ops arbitrary: cs) (auto simp: op_no_loops)

text \<open>
  C7, as the code has it. After any sequence of calls of the five operations, starting from
  the empty store, no two entries of the connection list are the same undirected edge
  (equal, or equal after swapping the ends). The list is free of self loops whenever no
  call was asked to join an index to itself: \<open>addSpringConnection\<close> has no test for
  \<open>index1 = index2\<close>, so the second half needs this condition on the calls.
\<close>

theorem connections_simple_graph:
  "no_parallel_edges (run_conn_ops ops []) \<and>
   (list_all loop_free_op ops \<longrightarrow> no_self_loops (run_conn_ops ops []))"
  using run_no_parallel[of "[]" ops] run_no_loops[of "[]" ops] by (simp add: no_self_loops_def)

theorem connections_simple_graph_witness:
  "list_all loop_free_op [Add 0 1, Chain [1, 2, 3], Remove 2 1, InitDefault, Add 5 0] \<and>
   no_parallel_edges
     (run_conn_ops [Add 0 1, Chain [1, 2, 3], Remove 2 1, InitDefault, Add 5 0] []) \<and>
   no_self_loops
     (run_conn_ops [Add 0 1, Chain [1, 2, 3], Remove 2 1, InitDefault, Add 5 0] [])"
proof -
  have h: "list_all loop_free_op [Add 0 1, Chain [1, 2, 3], Remove 2 1, InitDefault, Add 5 0]"
    by code_simp
  with connections_simple_graph[of "[Add 0 1, Chain [1, 2, 3], Remove 2 1, InitDefault, Add 5 0]"]
  show ?thesis by blast
qed

text \<open>
  The claim as written fails: \<open>addSpringConnection(3, 3)\<close> on the empty store stores the
  entry \<open>{index1: 3, index2: 3}\<close>.
\<close>

theorem self_loop_counterexample:
  "run_conn_ops [Add 3 3] [] = [\<lparr>index1 = 3, index2 = 3\<rparr>] \<and>
   \<not> no_self_loops (run_conn_ops [Add 3 3] [])"
  by (simp add: run_conn_ops_def addSpringConnection_def connExists_def no_self_loops_def)

text \<open>
  C10. When the connection list holds the edge \<open>{i, j}\<close> in neither orientation, adding
  \<open>(i, j)\<close> and then removing \<open>(i, j)\<close>, or removing \<open>(j, i)\<close>, gives back the list
  exactly.
\<close>

theorem add_remove_roundtrip:
  "\<not> connExists cs i j \<Longrightarrow>
   removeSpringConnection i j (addSpringConnection i j cs) = cs \<and>
   removeSpringConnection j i (addSpringConnection i j cs) = cs"
  by (auto simp: removeSpringConnection_def addSpringConnection_def connExists_def list_ex_iff
      filter_id_conv)

theorem add_remove_roundtrip_witness:
  "\<not> connExists [\<lparr>index1 = 1, index2 = 2\<rparr>, \<lparr>index1 = 4, index2 = 7\<rparr>] 7 1 \<and>
   removeSpringConnection 7 1
     (addSpringConnection 7 1 [\<lparr>index1 = 1, index2 = 2\<rparr>, \<lparr>index1 = 4, index2 = 7\<rparr>])
     = [\<lparr>index1 = 1, index2 = 2\<rparr>, \<lparr>index1 = 4, index2 = 7\<rparr>] \<and>
   removeSpringConnection 1 7
     (addSpringConnection 7 1 [\<lparr>index1 = 1, index2 = 2\<rparr>, \<lparr>index1 = 4, index2 = 7\<rparr>])
     = [\<lparr>index1 = 1, index2 = 2\<rparr>, \<lparr>index1 = 4, index2 = 7\<rparr>]"
proof -
  have h: "\<not> connExists [\<lparr>index1 = 1, index2 = 2\<rparr>, \<lparr>index1 = 4, index2 = 7\<rparr>] 7 1"
    by (simp add: connExists_def)
  with add_remove_roundtrip[OF h] show ?thesis by blast
qed

section \<open>Properties of the spring forces\<close>

text \<open>
  C4. The hue force is the wrapped difference times the spring constant: the raw difference
  \<open>pos2 - pos1\<close> (neighbour minus self) loses 360 when it exceeds 180 and gains 360 when
  it is below -180. For the hues 350 and 10: a colour at 10 whose neighbour is at 350 has
  raw difference +340 and signed delta -20, and a colour at 350 whose neighbour is at 10
  has raw difference -340 and signed delta +20, so each moves towards the other along the
  20 degree arc.
\<close>

theorem hue_force_shortest_path:
  "shortestDiff p1 p2 =
     (if p2 - p1 > 180 then p2 - p1 - 360
      else if p2 - p1 < - 180 then p2 - p1 + 360 else p2 - p1) \<and>
   calculateSpringForce env p1 p2 = shortestDiff p1 p2 * springConstant env \<and>
   shortestDiff 10 350 = - 20 \<and> shortestDiff 350 10 = 20"
  by (simp add: shortestDiff_def calculateSpringForce_def Let_def)

lemma darkGreen_probe: "luminanceProbe std_chroma darkGreen = 447 / 403750"
  by (simp add: luminanceProbe_def darkGreen_def createColor_def std_chroma_def std_hsl_rgb_def
      hueChannel_def calculateLuminance_def linearChannel_def Let_def)

lemma black_probe: "luminanceProbe std_chroma black = 1 / 1292"
  by (simp add: luminanceProbe_def black_def createColor_def std_chroma_def std_hsl_rgb_def
      calculateLuminance_def linearChannel_def)

lemma black_lum: "luminance black = 0"
  by (simp add: black_def createColor_def std_chroma_def std_hsl_rgb_def
      calculateLuminance_def linearChannel_def)

lemma estimate_eq:
  "estimateLightnessChange ch color target =
     0.5 * (target - luminance color)
       / (if luminanceProbe ch color = 0 then 0.001 else luminanceProbe ch color)"
  by (simp add: estimateLightnessChange_def luminanceProbe_def js_or_def Let_def)

lemma estimate_bound:
  assumes "luminanceProbe ch color = 0 \<or> 0.001 \<le> \<bar>luminanceProbe ch color\<bar>"
  shows "\<bar>estimateLightnessChange ch color target\<bar>
           \<le> 0.5 * \<bar>target - luminance color\<bar> / 0.001"
proof -
  let ?d = "if luminanceProbe ch color = 0 then 0.001 else luminanceProbe ch color"
  have d: "0.001 \<le> \<bar>?d\<bar>" using assms by auto
  have "\<bar>estimateLightnessChange ch color target\<bar>
          = 0.5 * \<bar>target - luminance color\<bar> / \<bar>?d\<bar>"
    unfolding estimate_eq by (simp add: abs_mult)
  also have "\<dots> \<le> 0.5 * \<bar>target - luminance color\<bar> / 0.001"
    using d by (intro divide_left_mono) auto
  finally show ?thesis .
qed

text \<open>
  C5, as the code has it. The divisor of \<open>estimateLightnessChange\<close> is the finite
  difference itself, replaced by 0.001 only when it is exactly zero (\<open>luminanceDiff ||
  0.001\<close>), so the division is never by zero. The bound
  \<open>0.5 * |targetLuminance - color.luminance| / 0.001\<close> on the result holds when the
  finite difference is zero or has magnitude at least 0.001.
\<close>

theorem lightness_estimate_zero_guard:
  "estimateLightnessChange ch color target =
     0.5 * (target - luminance color)
       / (if luminanceProbe ch color = 0 then 0.001 else luminanceProbe ch color) \<and>
   (if luminanceProbe ch color = 0 then 0.001 else luminanceProbe ch color) \<noteq> 0 \<and>
   (luminanceProbe ch color = 0 \<or> 0.001 \<le> \<bar>luminanceProbe ch color\<bar> \<longrightarrow>
    \<bar>estimateLightnessChange ch color target\<bar>
      \<le> 0.5 * \<bar>target - luminance color\<bar> / 0.001)"
  using estimate_eq[of ch color target] estimate_bound[of ch color target] by simp

theorem lightness_estimate_zero_guard_witness:
  "(luminanceProbe std_chroma darkGreen = 0
      \<or> 0.001 \<le> \<bar>luminanceProbe std_chroma darkGreen\<bar>) \<and>
   \<bar>estimateLightnessChange std_chroma darkGreen 0.3\<bar>
     \<le> 0.5 * \<bar>0.3 - luminance darkGreen\<bar> / 0.001"
proof -
  have h: "luminanceProbe std_chroma darkGreen = 0
             \<or> 0.001 \<le> \<bar>luminanceProbe std_chroma darkGreen\<bar>"
    by (simp add: darkGreen_probe)
  with lightness_estimate_zero_guard[of std_chroma darkGreen "0.3"] show ?thesis by blast
qed

text \<open>
  The claim as written fails on black: one unit of lightness raises the luminance by
  \<open>1/1292\<close>, which is not zero and is below 0.001, so it is used as the divisor
  unchanged and the estimate for the target 0.5 is 323, above the claimed cap of 250.
\<close>

theorem lightness_estimate_bound_counterexample:
  "luminanceProbe std_chroma black \<noteq> 0 \<and> \<bar>luminanceProbe std_chroma black\<bar> < 0.001 \<and>
   estimateLightnessChange std_chroma black 0.5 = 323 \<and>
   \<not> \<bar>estimateLightnessChange std_chroma black 0.5\<bar>
        \<le> 0.5 * \<bar>0.5 - luminance black\<bar> / 0.001"
  by (simp add: estimate_eq black_probe black_lum)

section \<open>Properties of the simulation step\<close>

lemma js_rem_id: "0 \<le> x \<Longrightarrow> x < 360 \<Longrightarrow> js_rem x 360 = x"
proof -
  assume a: "0 \<le> x" "x < 360"
  then have "\<lfloor>x / 360\<rfloor> = 0" by (simp add: floor_eq_iff)
  with a show ?thesis by (simp add: js_rem_def)
qed

lemma forceOn_no_conns: "forceOn env [] colors i = Inr zeroVelocity"
  by (simp add: forceOn_def getConnectedIndices_def Let_def zeroVelocity_def
      estimateLightnessChange_def)

lemma forceLoop_no_conns:
  "zero_forces forces \<Longrightarrow>
   \<exists>forces'. forceLoop env [] colors L idxs forces = Inr forces' \<and> zero_forces forces'"
proof (induction idxs arbitrary: forces)
  case Nil
  then show ?case by simp
next
  case (Cons i rest)
  have "zero_forces (forces(i \<mapsto> zeroVelocity))"
    using Cons.prems by (simp add: zero_forces_def)
  from Cons.IH[OF this] obtain f1 where
    f1: "forceLoop env [] colors L rest (forces(i \<mapsto> zeroVelocity)) = Inr f1" "zero_forces f1"
    by blast
  from Cons.IH[OF Cons.prems] obtain f2 where
    f2: "forceLoop env [] colors L rest forces = Inr f2" "zero_forces f2"
    by blast
  show ?case
  proof (cases "i \<in> L")
    case True
    then show ?thesis using f2 by simp
  next
    case False
    then show ?thesis using f1 by (simp add: forceOn_no_conns del: fun_upd_apply)
  qed
qed

lemma stepVelocity_zero: "stepVelocity env zeroVelocity zeroVelocity = zeroVelocity"
  by (simp add: stepVelocity_def zeroVelocity_def)

lemma moveColor_zero: "wellFormedColor (chroma env) c \<Longrightarrow> moveColor env c zeroVelocity = c"
  by (simp add: moveColor_def wellFormedColor_def zeroVelocity_def js_rem_id Let_def)

lemma updateLoop_fixed:
  assumes "zero_forces forces"
    and "\<forall>i\<in>set idxs. i < length colors"
    and "\<forall>c\<in>set colors. wellFormedColor (chroma env) c"
  shows "updateLoop env colors L forces idxs (replicate (length colors) zeroVelocity) colors
           = (Inr colors, replicate (length colors) zeroVelocity)"
  using assms(2)
proof (induction idxs)
  case Nil
  then show ?case by simp
next
  case (Cons i rest)
  have i: "i < length colors" using Cons.prems by simp
  have f: "(case forces i of Some f \<Rightarrow> f | None \<Rightarrow> zeroVelocity) = zeroVelocity"
  proof (cases "forces i")
    case None
    then show ?thesis by simp
  next
    case (Some a)
    then have "a = zeroVelocity" using assms(1) unfolding zero_forces_def by (metis option.inject option.distinct(1))
    with Some show ?thesis by simp
  qed
  have m: "moveColor env (colors ! i) zeroVelocity = colors ! i"
    using assms(3) i by (simp add: moveColor_zero)
  have v: "(replicate (length colors) zeroVelocity)[i := zeroVelocity]
            = replicate (length colors) zeroVelocity"
    using i by (simp add: list_update_same_conv)
  show ?case using Cons i by (simp add: f m v stepVelocity_zero Let_def)
qed

lemma simulateStep_no_conns:
  assumes "\<forall>c\<in>set colors. wellFormedColor (chroma env) c"
    and "vels = [] \<or> vels = initializeVelocities colors"
  shows "simulateStep env [] vels colors L = (Inr colors, initializeVelocities colors)"
proof -
  have e: "ensureVelocities vels colors = replicate (length colors) zeroVelocity"
    using assms(2) by (auto simp: ensureVelocities_def initializeVelocities_def)
  obtain forces where f: "forceLoop env [] colors L [0 ..< length colors] Map.empty = Inr forces"
    "zero_forces forces"
  proof -
    have "zero_forces Map.empty" by (simp add: zero_forces_def)
    from forceLoop_no_conns[OF this, of env colors L "[0 ..< length colors]"] that
    show ?thesis by blast
  qed
  show ?thesis
    using updateLoop_fixed[OF f(2) _ assms(1), of "[0 ..< length colors]" L]
    by (simp add: simulateStep_def e f(1) initializeVelocities_def)
qed

lemma runSteps_no_conns:
  assumes "\<forall>c\<in>set colors. wellFormedColor (chroma env) c"
    and "vels = [] \<or> vels = initializeVelocities colors"
  shows "fst (runSteps env [] lockeds vels colors) = Inr colors"
  using assms(2)
proof (induction lockeds arbitrary: vels)
  case Nil
  then show ?case by simp
next
  case (Cons L rest)
  show ?case
    using Cons.IH[of "initializeVelocities colors"] simulateStep_no_conns[OF assms(1) Cons.prems]
    by simp
qed


text \<open>
  C2. With an empty connection list, a palette whose entries are well formed (hue in
  \<open>[0, 360)\<close>, saturation and lightness in \<open>[0, 100]\<close>, the derived fields those of
  \<open>createColor\<close>) is returned unchanged by any number of successive \<open>simulateStep\<close>
  calls, whatever the locked set of each call, starting from a fresh spring system (empty
  velocity map) or from velocities reset to zero. No call throws.
\<close>

theorem empty_network_fixes_palette:
  assumes "\<forall>c\<in>set colors. wellFormedColor (chroma env) c"
  shows "fst (runSteps env [] lockeds [] colors) = Inr colors \<and>
         fst (runSteps env [] lockeds (initializeVelocities colors) colors) = Inr colors"
  using runSteps_no_conns[OF assms] by simp

theorem empty_network_fixes_palette_witness:
  "wellFormedColor (chroma default_env) cA \<and>
   wellFormedColor (chroma default_env) darkGreen \<and>
   wellFormedColor (chroma default_env) cB \<and>
   fst (runSteps default_env [] [{}, {0}, {}, {1, 2}] [] [cA, darkGreen, cB])
     = Inr [cA, darkGreen, cB] \<and>
   fst (runSteps default_env [] [{}, {0}, {}, {1, 2}]
          (initializeVelocities [cA, darkGreen, cB]) [cA, darkGreen, cB])
     = Inr [cA, darkGreen, cB]"
proof -
  have wf: "\<forall>c\<in>set [cA, darkGreen, cB]. wellFormedColor (chroma default_env) c"
    by (simp add: wellFormedColor_def default_env_def cA_def cB_def darkGreen_def createColor_def)
  with empty_network_fixes_palette[OF wf, of "[{}, {0}, {}, {1, 2}]"] show ?thesis by simp
qed

lemma forceLoop_char:
  "forceLoop env conns colors L idxs forces = Inr forces' \<Longrightarrow>
   (\<forall>j\<in>set idxs. j \<notin> L \<longrightarrow> forceOn env conns colors j = Inr (forceOf forces' j))"
proof (induction idxs arbitrary: forces)
  case Nil
  then show ?case by simp
next
  case (Cons i rest)
  show ?case
  proof (cases "i \<in> L")
    case True
    then show ?thesis using Cons by simp
  next
    case False
    then obtain f where f: "forceOn env conns colors i = Inr f"
      and rest: "forceLoop env conns colors L rest (forces(i \<mapsto> f)) = Inr forces'"
      using Cons.prems by (auto split: sum.splits)
    have keep: "forceLoop env conns colors L xs fs = Inr forces' \<Longrightarrow> i \<notin> set xs \<Longrightarrow> forces' i = fs i" for xs fs
    proof (induction xs arbitrary: fs)
      case Nil
      then show ?case by simp
    next
      case (Cons a xs)
      then show ?case by (auto split: if_splits sum.splits)
    qed
    have "forceOn env conns colors i = Inr (forceOf forces' i)"
    proof (cases "i \<in> set rest")
      case True
      then show ?thesis using Cons.IH[OF rest] False by simp
    next
      case False
      then have "forces' i = Some f" using keep[OF rest] by simp
      then show ?thesis using f by (simp add: forceOf_def)
    qed
    then show ?thesis using Cons.IH[OF rest] by simp
  qed
qed

lemma updateLoop_char:
  assumes "updateLoop env colors L forces idxs vels nc = (Inr cs', vels')"
    and "distinct idxs"
  shows "length cs' = length nc \<and> length vels' = length vels \<and>
    (\<forall>j. j \<notin> set idxs \<or> j \<in> L \<longrightarrow> cs' ! j = nc ! j \<and> vels' ! j = vels ! j) \<and>
    (\<forall>j\<in>set idxs. j \<notin> L \<longrightarrow> j < length vels \<and>
        vels' ! j = stepVelocity env (vels ! j) (forceOf forces j) \<and>
        (j < length nc \<longrightarrow>
           cs' ! j = moveColor env (colors ! j) (stepVelocity env (vels ! j) (forceOf forces j))))"
  using assms
proof (induction idxs arbitrary: vels nc)
  case Nil
  then show ?case by simp
next
  case (Cons i rest)
  show ?case
  proof (cases "i \<in> L")
    case True
    then have "updateLoop env colors L forces rest vels nc = (Inr cs', vels')"
      using Cons.prems by simp
    from Cons.IH[OF this] Cons.prems(2) True show ?thesis by auto
  next
    case False
    let ?vel = "stepVelocity env (vels ! i) (forceOf forces i)"
    have iv: "i < length vels" using Cons.prems(1) False
      by (auto simp: Let_def split: if_splits)
    then have rec: "updateLoop env colors L forces rest (vels[i := ?vel])
                 (nc[i := moveColor env (colors ! i) ?vel]) = (Inr cs', vels')"
      using Cons.prems(1) False by (simp add: Let_def forceOf_def)
    have d: "distinct rest" "i \<notin> set rest" using Cons.prems(2) by auto
    note IH = Cons.IH[OF rec d(1)]
    have a: "length cs' = length nc" "length vels' = length vels" using IH by auto
    have b: "cs' ! j = nc ! j \<and> vels' ! j = vels ! j" if "j \<notin> set (i # rest) \<or> j \<in> L" for j
    proof -
      have "j \<noteq> i" using that False by auto
      moreover have "j \<notin> set rest \<or> j \<in> L" using that by auto
      ultimately show ?thesis using IH by auto
    qed
    have c: "j < length vels \<and> vels' ! j = stepVelocity env (vels ! j) (forceOf forces j) \<and>
        (j < length nc \<longrightarrow>
           cs' ! j = moveColor env (colors ! j) (stepVelocity env (vels ! j) (forceOf forces j)))"
      if "j \<in> set (i # rest)" "j \<notin> L" for j
    proof (cases "j = i")
      case True
      have "cs' ! i = (nc[i := moveColor env (colors ! i) ?vel]) ! i"
           "vels' ! i = (vels[i := ?vel]) ! i"
        using IH d(2) by auto
      then show ?thesis using True iv by simp
    next
      case False
      then have "j \<in> set rest" using that by simp
      then show ?thesis using IH that(2) False by auto
    qed
    show ?thesis using a b c by blast
  qed
qed

lemma simulateStep_char:
  assumes "simulateStep env conns vels0 colors L = (Inr cs', vels')"
  shows "length cs' = length colors \<and>
    length vels' = length (ensureVelocities vels0 colors) \<and>
    (\<forall>j. j \<in> L \<or> length colors \<le> j \<longrightarrow>
        cs' ! j = colors ! j \<and> vels' ! j = ensureVelocities vels0 colors ! j) \<and>
    (\<forall>j. j < length colors \<and> j \<notin> L \<longrightarrow>
        j < length (ensureVelocities vels0 colors) \<and>
        (\<exists>f. forceOn env conns colors j = Inr f \<and>
          vels' ! j = stepVelocity env (ensureVelocities vels0 colors ! j) f \<and>
          cs' ! j = moveColor env (colors ! j)
                     (stepVelocity env (ensureVelocities vels0 colors ! j) f)))"
proof -
  let ?vels = "ensureVelocities vels0 colors"
  obtain forces where f: "forceLoop env conns colors L [0 ..< length colors] Map.empty = Inr forces"
    and u: "updateLoop env colors L forces [0 ..< length colors] ?vels colors = (Inr cs', vels')"
    using assms by (auto simp: simulateStep_def Let_def split: sum.splits)
  note F = forceLoop_char[OF f]
  note U = updateLoop_char[OF u distinct_upt]
  have 1: "length cs' = length colors" "length vels' = length ?vels" using U by auto
  have 2: "cs' ! j = colors ! j \<and> vels' ! j = ?vels ! j" if "j \<in> L \<or> length colors \<le> j" for j
    using U that by auto
  have 3: "j < length ?vels \<and>
        (\<exists>f. forceOn env conns colors j = Inr f \<and>
          vels' ! j = stepVelocity env (?vels ! j) f \<and>
          cs' ! j = moveColor env (colors ! j) (stepVelocity env (?vels ! j) f))"
    if "j < length colors \<and> j \<notin> L" for j
  proof -
    have "forceOn env conns colors j = Inr (forceOf forces j)" using F that by simp
    moreover have "j < length ?vels \<and> vels' ! j = stepVelocity env (?vels ! j) (forceOf forces j) \<and>
       cs' ! j = moveColor env (colors ! j) (stepVelocity env (?vels ! j) (forceOf forces j))"
      using U that by simp
    ultimately show ?thesis by blast
  qed
  show ?thesis using 1 2 3 by blast
qed


lemmas eval_defs = simulateStep_def ensureVelocities_def initializeVelocities_def forceOn_def
  getConnectedIndices_def colorAt_def calculateSpringForce_def shortestDiff_def
  estimateLightnessChange_def js_or_def stepVelocity_def moveColor_def zeroVelocity_def
  default_env_def Let_def js_rem_id

lemma grey_color:
  "createColor std_chroma hh 0 1 =
     \<lparr>Color.h = hh, s = 0, l = 1, rgb = \<lparr>r = 51 / 20, g = 51 / 20, b = 51 / 20\<rparr>,
      luminance = 1 / 1292\<rparr>"
  by (simp add: createColor_def std_chroma_def std_hsl_rgb_def calculateLuminance_def
      linearChannel_def)

lemma grey_color2:
  "createColor std_chroma hh 0 2 =
     \<lparr>Color.h = hh, s = 0, l = 2, rgb = \<lparr>r = 51 / 10, g = 51 / 10, b = 51 / 10\<rparr>,
      luminance = 1 / 646\<rparr>"
  by (simp add: createColor_def std_chroma_def std_hsl_rgb_def calculateLuminance_def
      linearChannel_def)

lemma step_locked:
  "simulateStep default_env conn01 [] [cA, cB] {0} =
     (Inr [cA, createColor std_chroma (1758 / 5) 0 1],
      [zeroVelocity, \<lparr>ColorVelocity.h = 8 / 5, s = 0, l = 0\<rparr>])"
  by (simp add: eval_defs cA_def cB_def conn01_def grey_color grey_color2)

lemma step1_eval: "simulateStep default_env conn01 [] [cA, cB] {} = (Inr pal1, vels1)"
  by (simp add: eval_defs cA_def cB_def conn01_def pal1_def vels1_def grey_color grey_color2)

lemma step2_eval:
  "simulateStep default_env conn01 vels1 (pal1 @ [cA]) {2} =
     (Inr [createColor std_chroma (722 / 125) 0 1, createColor std_chroma (44278 / 125) 0 1, cA],
      [\<lparr>ColorVelocity.h = - (328 / 125), s = 0, l = 0\<rparr>,
       \<lparr>ColorVelocity.h = 328 / 125, s = 0, l = 0\<rparr>])"
  by (simp add: eval_defs cA_def conn01_def pal1_def vels1_def grey_color grey_color2)

lemma step2_reinit:
  "simulateStep default_env conn01 (initializeVelocities (pal1 @ [cA])) (pal1 @ [cA]) {2} =
     (Inr [createColor std_chroma (882 / 125) 0 1, createColor std_chroma (44118 / 125) 0 1, cA],
      [\<lparr>ColorVelocity.h = - (168 / 125), s = 0, l = 0\<rparr>,
       \<lparr>ColorVelocity.h = 168 / 125, s = 0, l = 0\<rparr>,
       zeroVelocity])"
  by (simp add: eval_defs cA_def conn01_def pal1_def grey_color grey_color2)

lemma step2_crash:
  "simulateStep default_env conn01 vels1 (pal1 @ [cA]) {} =
     (Inl TypeError,
      [\<lparr>ColorVelocity.h = - (328 / 125), s = 0, l = 0\<rparr>,
       \<lparr>ColorVelocity.h = 328 / 125, s = 0, l = 0\<rparr>])"
  by (simp add: eval_defs cA_def conn01_def pal1_def vels1_def grey_color grey_color2)

text \<open>
  C3. When \<open>simulateStep\<close> returns a palette, it has the length of the input; every locked
  index holds the colour it held before; and every unlocked index \<open>i\<close> holds the colour
  moved by the velocity updated with the force \<open>forceOn env conns colors i\<close>, which is
  computed from the input palette alone: each neighbour, locked or not, enters it with its
  value before the step. Hence the new colour of an index that is unlocked in two runs on
  the same input is the same in both, whatever else each run locks.
\<close>

theorem locked_colors_fixed:
  assumes "simulateStep env conns vels colors L = (Inr cs', vels')"
  shows "length cs' = length colors \<and>
    (\<forall>i\<in>L. cs' ! i = colors ! i) \<and>
    (\<forall>i. i < length colors \<and> i \<notin> L \<longrightarrow>
       (\<exists>f. forceOn env conns colors i = Inr f \<and>
            cs' ! i = moveColor env (colors ! i)
                        (stepVelocity env (ensureVelocities vels colors ! i) f))) \<and>
    (\<forall>L2 cs2 vels2. simulateStep env conns vels colors L2 = (Inr cs2, vels2) \<longrightarrow>
       (\<forall>i. i < length colors \<and> i \<notin> L \<and> i \<notin> L2 \<longrightarrow> cs' ! i = cs2 ! i))"
proof -
  note C = simulateStep_char[OF assms]
  have ind: "cs' ! i = cs2 ! i"
    if h1: "simulateStep env conns vels colors L2 = (Inr cs2, vels2)"
      and h2: "i < length colors \<and> i \<notin> L \<and> i \<notin> L2" for L2 cs2 vels2 i
  proof -
    note C2 = simulateStep_char[OF h1]
    obtain f where "forceOn env conns colors i = Inr f"
      "cs' ! i = moveColor env (colors ! i) (stepVelocity env (ensureVelocities vels colors ! i) f)"
      using C h2 by blast
    moreover obtain f2 where "forceOn env conns colors i = Inr f2"
      "cs2 ! i = moveColor env (colors ! i) (stepVelocity env (ensureVelocities vels colors ! i) f2)"
      using C2 h2 by blast
    ultimately show ?thesis by simp
  qed
  have "\<forall>i\<in>L. cs' ! i = colors ! i" using C by blast
  moreover have "\<forall>i. i < length colors \<and> i \<notin> L \<longrightarrow>
       (\<exists>f. forceOn env conns colors i = Inr f \<and>
            cs' ! i = moveColor env (colors ! i)
                        (stepVelocity env (ensureVelocities vels colors ! i) f))"
    using C by blast
  ultimately show ?thesis using C ind by blast
qed

theorem locked_colors_fixed_witness:
  "simulateStep default_env conn01 [] [cA, cB] {0} =
     (Inr [cA, createColor std_chroma (1758 / 5) 0 1],
      [zeroVelocity, \<lparr>ColorVelocity.h = 8 / 5, s = 0, l = 0\<rparr>]) \<and>
   [cA, createColor std_chroma (1758 / 5) 0 1] ! 0 = [cA, cB] ! 0 \<and>
   (\<exists>f. forceOn default_env conn01 [cA, cB] 1 = Inr f \<and>
        [cA, createColor std_chroma (1758 / 5) 0 1] ! 1 =
          moveColor default_env ([cA, cB] ! 1)
            (stepVelocity default_env (ensureVelocities [] [cA, cB] ! 1) f))"
proof -
  note t = locked_colors_fixed[OF step_locked]
  have "(1::nat) < length [cA, cB] \<and> 1 \<notin> {0::nat}" by simp
  with t step_locked show ?thesis by blast
qed

text \<open>
  C8, as the code has it. \<open>initializeVelocities\<close> (also exported as \<open>reset\<close>) gives one
  zero velocity per palette index. \<open>simulateStep\<close> calls it exactly when the velocity map
  is empty: a call on the empty map is the call on the map reset for its palette, and when
  it returns, the map has one entry per palette index, zero for a locked index and the zero
  velocity advanced by the force of this step for an unlocked one. A non-empty map is used
  as it is, whatever the length of the palette: in a step that returns, the map keeps its
  size, the entries of locked indices and of indices beyond the palette are untouched, and
  the entry of an unlocked index is the stored velocity advanced by the force of this step.
\<close>

theorem velocity_state_lifecycle:
  "initializeVelocities colors = replicate (length colors) zeroVelocity \<and>
   simulateStep env conns [] colors L
     = simulateStep env conns (initializeVelocities colors) colors L \<and>
   (simulateStep env conns [] colors L = (Inr cs0, vels0) \<longrightarrow>
      length vels0 = length colors \<and>
      (\<forall>i. i < length colors \<and> i \<in> L \<longrightarrow> vels0 ! i = zeroVelocity) \<and>
      (\<forall>i. i < length colors \<and> i \<notin> L \<longrightarrow>
         (\<exists>f. forceOn env conns colors i = Inr f \<and>
              vels0 ! i = stepVelocity env zeroVelocity f))) \<and>
   ensureVelocities [] colors = initializeVelocities colors \<and>
   (vels \<noteq> [] \<longrightarrow> ensureVelocities vels colors = vels) \<and>
   (vels \<noteq> [] \<and> simulateStep env conns vels colors L = (Inr cs', vels') \<longrightarrow>
      length vels' = length vels \<and>
      (\<forall>i. i \<in> L \<or> length colors \<le> i \<longrightarrow> vels' ! i = vels ! i) \<and>
      (\<forall>i. i < length colors \<and> i \<notin> L \<longrightarrow>
         (\<exists>f. forceOn env conns colors i = Inr f \<and>
              vels' ! i = stepVelocity env (vels ! i) f)))"
proof -
  have e: "ensureVelocities vels colors = vels" if "vels \<noteq> []"
    using that by (simp add: ensureVelocities_def)
  have e0: "ensureVelocities [] colors = replicate (length colors) zeroVelocity"
    by (simp add: ensureVelocities_def initializeVelocities_def)
  have same: "simulateStep env conns [] colors L
                = simulateStep env conns (initializeVelocities colors) colors L"
    by (simp add: simulateStep_def ensureVelocities_def initializeVelocities_def)
  have fresh: "length vels0 = length colors \<and>
      (\<forall>i. i < length colors \<and> i \<in> L \<longrightarrow> vels0 ! i = zeroVelocity) \<and>
      (\<forall>i. i < length colors \<and> i \<notin> L \<longrightarrow>
         (\<exists>f. forceOn env conns colors i = Inr f \<and>
              vels0 ! i = stepVelocity env zeroVelocity f))"
    if run: "simulateStep env conns [] colors L = (Inr cs0, vels0)"
  proof -
    note C = simulateStep_char[OF run, unfolded e0]
    have 1: "length vels0 = length colors" using C by simp
    have 2: "vels0 ! i = zeroVelocity" if "i < length colors \<and> i \<in> L" for i
    proof -
      have "vels0 ! i = replicate (length colors) zeroVelocity ! i" using C that by blast
      then show ?thesis using that by simp
    qed
    have 3: "\<exists>f. forceOn env conns colors i = Inr f \<and>
                 vels0 ! i = stepVelocity env zeroVelocity f"
      if h3: "i < length colors \<and> i \<notin> L" for i
    proof -
      obtain f where "forceOn env conns colors i = Inr f"
        "vels0 ! i = stepVelocity env (replicate (length colors) zeroVelocity ! i) f"
        using C h3 by blast
      then show ?thesis using h3 by simp
    qed
    show ?thesis using 1 2 3 by blast
  qed
  have st: "length vels' = length vels \<and>
      (\<forall>i. i \<in> L \<or> length colors \<le> i \<longrightarrow> vels' ! i = vels ! i) \<and>
      (\<forall>i. i < length colors \<and> i \<notin> L \<longrightarrow>
         (\<exists>f. forceOn env conns colors i = Inr f \<and>
              vels' ! i = stepVelocity env (vels ! i) f))"
    if ne: "vels \<noteq> []" and run: "simulateStep env conns vels colors L = (Inr cs', vels')"
  proof -
    note C = simulateStep_char[OF run, unfolded e[OF ne]]
    show ?thesis using C by blast
  qed
  have i0: "initializeVelocities colors = replicate (length colors) zeroVelocity"
    by (simp add: initializeVelocities_def)
  have e1: "ensureVelocities [] colors = initializeVelocities colors"
    by (simp add: ensureVelocities_def)
  show ?thesis using i0 same fresh e1 e st by blast
qed

text \<open>
  An instance with every condition met: the fresh system on the three-colour palette with
  index 2 locked, and the same call on the two velocities left by an earlier step.
\<close>

theorem velocity_state_lifecycle_witness:
  "simulateStep default_env conn01 [] (pal1 @ [cA]) {2} =
     (Inr [createColor std_chroma (882 / 125) 0 1, createColor std_chroma (44118 / 125) 0 1, cA],
      [\<lparr>ColorVelocity.h = - (168 / 125), s = 0, l = 0\<rparr>,
       \<lparr>ColorVelocity.h = 168 / 125, s = 0, l = 0\<rparr>,
       zeroVelocity]) \<and>
   length [\<lparr>ColorVelocity.h = - (168 / 125), s = 0, l = 0\<rparr>,
           \<lparr>ColorVelocity.h = 168 / 125, s = 0, l = 0\<rparr>,
           zeroVelocity] = length (pal1 @ [cA]) \<and>
   vels1 \<noteq> [] \<and>
   simulateStep default_env conn01 vels1 (pal1 @ [cA]) {2} =
     (Inr [createColor std_chroma (722 / 125) 0 1, createColor std_chroma (44278 / 125) 0 1, cA],
      [\<lparr>ColorVelocity.h = - (328 / 125), s = 0, l = 0\<rparr>,
       \<lparr>ColorVelocity.h = 328 / 125, s = 0, l = 0\<rparr>]) \<and>
   ensureVelocities vels1 (pal1 @ [cA]) = vels1 \<and>
   length [\<lparr>ColorVelocity.h = - (328 / 125), s = 0, l = 0\<rparr>,
           \<lparr>ColorVelocity.h = 328 / 125, s = 0, l = 0\<rparr>] = length vels1"
proof -
  have ne: "vels1 \<noteq> []" by (simp add: vels1_def)
  note t = velocity_state_lifecycle[of "pal1 @ [cA]" default_env conn01 "{2}"
      "[createColor std_chroma (882 / 125) 0 1, createColor std_chroma (44118 / 125) 0 1, cA]"
      "[\<lparr>ColorVelocity.h = - (168 / 125), s = 0, l = 0\<rparr>,
        \<lparr>ColorVelocity.h = 168 / 125, s = 0, l = 0\<rparr>,
        zeroVelocity]"
      vels1
      "[createColor std_chroma (722 / 125) 0 1, createColor std_chroma (44278 / 125) 0 1, cA]"
      "[\<lparr>ColorVelocity.h = - (328 / 125), s = 0, l = 0\<rparr>,
        \<lparr>ColorVelocity.h = 328 / 125, s = 0, l = 0\<rparr>]"]
  have fresh: "simulateStep default_env conn01 [] (pal1 @ [cA]) {2} =
     (Inr [createColor std_chroma (882 / 125) 0 1, createColor std_chroma (44118 / 125) 0 1, cA],
      [\<lparr>ColorVelocity.h = - (168 / 125), s = 0, l = 0\<rparr>,
       \<lparr>ColorVelocity.h = 168 / 125, s = 0, l = 0\<rparr>,
       zeroVelocity])"
    using t step2_reinit by simp
  show ?thesis using t ne fresh step2_eval by blast
qed

text \<open>
  The claim as written fails. A fresh system steps the two-colour palette \<open>[cA, cB]\<close>
  joined by one spring; the velocity map now has two non-zero entries. The next call gets a
  palette of three colours. The map is not re-initialised: with index 2 locked the two
  stored velocities are carried on (\<open>-328/125\<close> rather than the \<open>-168/125\<close> a zeroed
  map would give) and no third entry appears; with index 2 unlocked the call throws on the
  missing entry.
\<close>

theorem velocity_reinit_counterexample:
  "simulateStep default_env conn01 [] [cA, cB] {} = (Inr pal1, vels1) \<and>
   length (pal1 @ [cA]) \<noteq> length [cA, cB] \<and>
   snd (simulateStep default_env conn01 vels1 (pal1 @ [cA]) {2}) =
     [\<lparr>ColorVelocity.h = - (328 / 125), s = 0, l = 0\<rparr>,
      \<lparr>ColorVelocity.h = 328 / 125, s = 0, l = 0\<rparr>] \<and>
   snd (simulateStep default_env conn01 vels1 (pal1 @ [cA]) {2}) \<noteq>
     snd (simulateStep default_env conn01 (initializeVelocities (pal1 @ [cA])) (pal1 @ [cA]) {2}) \<and>
   fst (simulateStep default_env conn01 vels1 (pal1 @ [cA]) {}) = Inl TypeError"
proof -
  have "length (pal1 @ [cA]) \<noteq> length [cA, cB]" by (simp add: pal1_def)
  then show ?thesis by (simp add: step1_eval step2_eval step2_reinit step2_crash)
qed

section \<open>Properties of the gradient generators\<close>

lemma search_Some:
  "bc \<noteq> None \<Longrightarrow> \<exists>y. lightnessSearch ch hh ss targetLum ll (bd, bl, bc) = Some y"
proof (induction ch hh ss targetLum ll "(bd, bl, bc)" arbitrary: bd bl bc rule: lightnessSearch.induct)
  case (1 ch hh ss targetLum ll bd bl bc)
  show ?case
  proof (cases "ll \<le> 100")
    case False
    then show ?thesis using 1(2) by (subst lightnessSearch.simps) auto
  next
    case True
    let ?tc = "createColor ch hh ss ll"
    let ?d = "\<bar>luminance ?tc - targetLum\<bar>"
    let ?better = "(case bd of None \<Rightarrow> True | Some d \<Rightarrow> ?d < d)"
    let ?best = "(if ?better then (Some ?d, ll, Some ?tc) else (bd, bl, bc))"
    obtain bd' bl' bc' where best: "?best = (bd', bl', bc')" by (cases ?best) auto
    have bc': "bc' \<noteq> None" using best 1(2) by (auto split: if_splits)
    show ?thesis
    proof (cases "?d < 0.001")
      case True
      then show ?thesis using \<open>ll \<le> 100\<close> best bc'
        by (subst lightnessSearch.simps) (auto simp: Let_def)
    next
      case False
      have "\<exists>y. lightnessSearch ch hh ss targetLum (ll + 0.2) (bd', bl', bc') = Some y"
        using 1(1)[OF True refl refl refl best[symmetric] False bc'] .
      then show ?thesis using \<open>ll \<le> 100\<close> best False
        by (subst lightnessSearch.simps) (auto simp: Let_def)
    qed
  qed
qed

lemma search_start: "\<exists>y. lightnessSearch ch hh ss targetLum 0 (None, 50, None) = Some y"
  by (subst lightnessSearch.simps) (simp add: Let_def search_Some)

lemma length_map_filter_all:
  "(\<forall>x\<in>set xs. \<exists>y. f x = Some y) \<Longrightarrow> length (List.map_filter f xs) = length xs"
  by (induction xs) (auto simp: List.map_filter_simps)

lemma upt21: "[0 ..< 21] = 0 # [1 ..< 21]"
  using upt_conv_Cons[of 0 21] by simp

lemma upt3: "[0 ..< 3] = [0, 1, 2]"
  by code_simp

lemma length_HSL: "length (generateHSLGradient ch (Some start) (Some end)) = 21"
  by (simp add: generateHSLGradient_def steps_def)

lemma length_EvenLum: "length (generateEvenLumGradient ch (Some start) (Some end)) = 21"
  by (simp add: generateEvenLumGradient_def steps_def length_map_filter_all search_start Let_def)

lemma length_OKLab: "length (generateOKLabGradient ch (Some start) (Some end)) = 21"
  by (simp add: generateOKLabGradient_def steps_def)

text \<open>
  C6, as the code has it. For non-null end points each of the three generators returns
  exactly 21 colours. \<open>steps = 20\<close> is the number of intervals: the HSL and the even
  luminance generators put the 19 colours for \<open>i = 1 .. 19\<close> between the two end points
  (the lightness search always finds a colour), and the OKLab generator mixes at
  \<open>i = 0 .. 20\<close>.
\<close>

theorem gradient_lengths:
  "length (generateHSLGradient ch (Some start) (Some end)) = 21 \<and>
   length (generateEvenLumGradient ch (Some start) (Some end)) = 21 \<and>
   length (generateOKLabGradient ch (Some start) (Some end)) = 21"
  by (simp add: length_HSL length_EvenLum length_OKLab)

text \<open>The claim as written fails: no generator returns 22 colours.\<close>

theorem gradient_length_counterexample:
  "length (generateHSLGradient std_chroma (Some grey25) (Some black)) \<noteq> 22 \<and>
   length (generateEvenLumGradient std_chroma (Some grey25) (Some black)) \<noteq> 22 \<and>
   length (generateOKLabGradient std_chroma (Some grey25) (Some black)) \<noteq> 22"
  by (simp add: length_HSL length_EvenLum length_OKLab)

lemma cube_cubeRoot: "cubeRoot v * cubeRoot v * cubeRoot v = max 0 v"
proof -
  have "root 3 (max 0 v) ^ 3 = max 0 v" by (rule odd_real_root_pow) simp
  then show ?thesis by (simp add: cubeRoot_def power3_eq_cube)
qed

lemma mmv3:
  "multiplyMatrixVector [[a1, a2, a3], [b1, b2, b3], [c1, c2, c3]] [x, y, z] =
     [a1 * x + a2 * y + a3 * z, b1 * x + b2 * y + b3 * z, c1 * x + c2 * y + c3 * z]"
  by (simp add: multiplyMatrixVector_def upt3)

text \<open>At \<open>t = 0\<close> the mix is rebuilt from the red, green and blue of the first colour.\<close>

lemma oklabMix_at_0:
  "oklabMix ch c1 c2 0 =
    (let lin = multiplyMatrixVector CONE_TO_LMS
                 [r (rgb c1) / 255, g (rgb c1) / 255, b (rgb c1) / 255];
         rgb' = multiplyMatrixVector LMS_TO_CONE (map (max 0) lin)
     in case rgb_hsl ch (js_round (max 0 (min 255 (rgb' ! 0 * 255))))
                        (js_round (max 0 (min 255 (rgb' ! 1 * 255))))
                        (js_round (max 0 (min 255 (rgb' ! 2 * 255)))) of
          (hh, ss, ll) \<Rightarrow> createColor ch hh (ss * 100) (ll * 100))"
  by (simp add: oklabMix_def CONE_TO_LMS_def mmv3 Let_def upt3 cube_cubeRoot)

lemma grey25_rgb: "rgb grey25 = \<lparr>r = 255 / 4, g = 255 / 4, b = 255 / 4\<rparr>"
  by (simp add: grey25_def createColor_def std_chroma_def std_hsl_rgb_def)

lemma mix_rgb:
  "multiplyMatrixVector LMS_TO_CONE
     (map (max 0) (multiplyMatrixVector CONE_TO_LMS [1 / 4, 1 / 4, 1 / 4]))
   = [1275000113096513168937 / 5100000000000000000000,
      5099999811899825050347 / 20400000000000000000000,
      5099999791572247838109 / 20400000000000000000000]"
  by (simp add: CONE_TO_LMS_def LMS_TO_CONE_def mmv3)

lemma round64:
  "js_round (max 0 (min 255 (1275000113096513168937 / 5100000000000000000000 * 255))) = 64"
  "js_round (max 0 (min 255 (5099999811899825050347 / 20400000000000000000000 * 255))) = 64"
  "js_round (max 0 (min 255 (5099999791572247838109 / 20400000000000000000000 * 255))) = 64"
  by (simp_all add: js_round_def)

lemma lin25:
  "[r (rgb grey25) / 255, g (rgb grey25) / 255, b (rgb grey25) / 255] = [1 / 4, 1 / 4, 1 / 4]"
  by (simp add: grey25_rgb)

lemma mix0: "oklabMix std_chroma grey25 c2 0 = createColor std_chroma 0 0 (1280 / 51)"
  apply (subst oklabMix_at_0)
  apply (simp only: lin25 Let_def mix_rgb nth_Cons_0 nth_Cons_Suc One_nat_def numeral_2_eq_2
      round64)
  apply (simp add: std_chroma_def std_rgb_hsl_def)
  done

text \<open>
  C1, as the code has it. For non-null end points the HSL and the even luminance gradients
  have the start colour itself as first element and the end colour itself as last element.
  The first and last elements of the OKLab gradient are \<open>oklabMix(start, end, 0)\<close> and
  \<open>oklabMix(start, end, 1)\<close>: colours built by \<open>createColor\<close> from the hue, saturation
  and lightness read off the rounded red, green and blue of the mix.
\<close>

theorem gradient_endpoints:
  "generateHSLGradient ch (Some start) (Some end) ! 0 = start \<and>
   last (generateHSLGradient ch (Some start) (Some end)) = end \<and>
   generateEvenLumGradient ch (Some start) (Some end) ! 0 = start \<and>
   last (generateEvenLumGradient ch (Some start) (Some end)) = end \<and>
   generateOKLabGradient ch (Some start) (Some end) ! 0 = oklabMix ch start end 0 \<and>
   last (generateOKLabGradient ch (Some start) (Some end)) = oklabMix ch start end 1"
  by (simp add: generateHSLGradient_def generateEvenLumGradient_def generateOKLabGradient_def
      steps_def upt21 last_map)

text \<open>
  The claim as written fails for the OKLab gradient. The grey \<open>createColor(0, 0, 25)\<close> has
  channels 63.75; the mix at \<open>t = 0\<close> rounds them to 64, and the colour rebuilt from
  \<open>(64, 64, 64)\<close> has lightness \<open>6400/255\<close>, not 25.
\<close>

theorem oklab_endpoint_counterexample:
  "generateOKLabGradient std_chroma (Some grey25) (Some black) ! 0
     = createColor std_chroma 0 0 (1280 / 51) \<and>
   Color.l (generateOKLabGradient std_chroma (Some grey25) (Some black) ! 0) \<noteq> Color.l grey25 \<and>
   generateOKLabGradient std_chroma (Some grey25) (Some black) ! 0 \<noteq> grey25"
proof -
  have e: "generateOKLabGradient std_chroma (Some grey25) (Some black) ! 0
             = createColor std_chroma 0 0 (1280 / 51)"
    by (simp add: generateOKLabGradient_def steps_def upt21 mix0)
  have n: "Color.l (createColor std_chroma 0 0 (1280 / 51)) \<noteq> Color.l grey25"
    by (simp add: createColor_def grey25_def)
  then have "createColor std_chroma 0 0 (1280 / 51) \<noteq> grey25" by auto
  with e n show ?thesis by simp
qed

section \<open>Properties of the text parser\<close>

lemma arraySome_False: "\<not> arraySome (\<lambda>c. False) a"
  by (auto simp: arraySome_def list_ex_iff split: option.splits)

text \<open>
  C9. The claim describes what \<open>parseColors\<close> is written to do (the comment
  \<open>Verify we have all 60 colors\<close> and the error \<open>Missing colors in file\<close>), and the code
  does not do it: the array starts as 60 holes, \<open>some\<close> passes over holes, and every
  element that exists is an object, so the test never fires and the result is \<open>null\<close>
  only when a line throws. On the empty text no colour is recovered and the result is the
  array of 60 holes, not \<open>null\<close>.
\<close>

theorem parseColors_accepts_empty_text:
  "parseColors P '''' = Some (newArray 60) \<and>
   alength (newArray 60 :: 'c js_array) = 60 \<and>
   recovered (newArray 60 :: 'c js_array) = 0 \<and>
   parseColors P text =
     (case parseLines P (splitOn CHR 0x0A text)
             \<lparr>newColors = newArray 60, currentGroup = Some (- 1),
              currentPalette = Some (- 1), currentColor = Some (- 1)\<rparr> of
        Inl e \<Rightarrow> None
      | Inr st \<Rightarrow> Some (newColors st))"
proof -
  have "parseColors P '''' = Some (newArray 60)"
    by (simp add: parseColors_def startsWith_def parseLine_def trim_def arraySome_False)
  moreover have "alength (newArray 60 :: 'c js_array) = 60"
    by (simp add: newArray_def)
  moreover have "recovered (newArray 60 :: 'c js_array) = 0"
    by (simp add: recovered_def newArray_def)
  moreover have "parseColors P text =
     (case parseLines P (splitOn CHR 0x0A text)
             \<lparr>newColors = newArray 60, currentGroup = Some (- 1),
              currentPalette = Some (- 1), currentColor = Some (- 1)\<rparr> of
        Inl e \<Rightarrow> None
      | Inr st \<Rightarrow> Some (newColors st))"
    by (simp add: parseColors_def arraySome_False split: sum.splits)
  ultimately show ?thesis by blast
qed

end
